theory Spec2Isabelle
  imports Main
begin

section \<open>The discovery script generate\_bindings.py of pyyogrt\<close>

text \<open>
  The script locates \<open>yogrt.h\<close> and \<open>libyogrt.so\<close> on the host. It reads the process
  environment, the executable search path, the output of child processes and the
  filesystem. The model passes all of these in explicitly as one record, \<open>world\<close>;
  every function of the script becomes a function of the world.

  Strings are lists of characters, read as code points below 256. A Python exception is a
  value of \<open>py_error\<close>; a function that can raise returns \<open>py_error + 'a\<close> with
  \<open>Inl\<close> for the exception. A Python \<open>set[str]\<close> is a list without duplicates in
  some iteration order; \<open>set.add\<close> is \<open>List.insert\<close> and \<open>set.update\<close> and
  \<open>|\<close> are \<open>List.union\<close>. Python leaves the iteration order of a set open, so
  the theorems speak about membership only, or hold for every order.
\<close>

subsection \<open>Python's string and list operations\<close>

text \<open>\<open>str.isspace\<close> on one character, for the code points below 256.\<close>

definition isspace :: "char \<Rightarrow> bool" where
  "isspace c =
     (c \<in> set [CHR 0x09, CHR 0x0A, CHR 0x0B, CHR 0x0C, CHR 0x0D,
                CHR 0x1C, CHR 0x1D, CHR 0x1E, CHR 0x1F, CHR 0x20, CHR 0x85, CHR 0xA0])"

text \<open>\<open>str.strip()\<close>: whitespace removed at both ends.\<close>

definition strip :: "string \<Rightarrow> string" where
  "strip s = rev (dropWhile isspace (rev (dropWhile isspace s)))"

text \<open>\<open>s.startswith(p)\<close>.\<close>

definition startswith :: "string \<Rightarrow> string \<Rightarrow> bool" where
  "startswith s p = (take (length p) s = p)"

text \<open>
  \<open>s.split(sep)\<close>: the text is cut at the leftmost occurrences of \<open>sep\<close>, which do
  not overlap. Python raises ValueError for an empty separator; the script only passes
  the constants \<open>':'\<close>, \<open>'\n'\<close> and \<open>' => '\<close>, and the model returns the text
  uncut there.
\<close>

function split_str :: "string \<Rightarrow> string \<Rightarrow> string list" where
  "split_str sep [] = [[]]"
| "split_str sep (c # cs) =
     (if sep \<noteq> [] \<and> startswith (c # cs) sep
      then [] # split_str sep (drop (length sep) (c # cs))
      else (case split_str sep cs of
              [] \<Rightarrow> [[c]]
            | seg # segs \<Rightarrow> (c # seg) # segs))"
  by pat_completeness auto
termination
  by (relation "measure (\<lambda>(sep, s). length s)") auto

text \<open>\<open>xs.index(x)\<close>: the first position of \<open>x\<close>; \<open>None\<close> stands for ValueError.\<close>

definition index_of :: "'a list \<Rightarrow> 'a \<Rightarrow> nat option" where
  "index_of xs x =
     (if x \<in> set xs then Some (length (takeWhile (\<lambda>y. y \<noteq> x) xs)) else None)"

text \<open>\<open>xs[i:j]\<close> for indices \<open>0 \<le> i\<close> and \<open>0 \<le> j\<close>: empty when \<open>j \<le> i\<close>.\<close>

definition slice :: "'a list \<Rightarrow> nat \<Rightarrow> nat \<Rightarrow> 'a list" where
  "slice xs i j = take (j - i) (drop i xs)"

text \<open>
  \<open>os.path.join(a, b)\<close> of posixpath for two components: an absolute \<open>b\<close> replaces
  \<open>a\<close>; otherwise \<open>b\<close> is appended, after a slash unless \<open>a\<close> is empty or ends in one.
\<close>

definition os_path_join :: "string \<Rightarrow> string \<Rightarrow> string" where
  "os_path_join a b =
     (if startswith b ''/'' then b
      else if a = [] \<or> last a = CHR ''/'' then a @ b
      else a @ ''/'' @ b)"

subsection \<open>Exceptions and the world\<close>

datatype py_error =
    FileNotFoundError
  | NotADirectoryError
  | PermissionError
  | CalledProcessError
  | IndexError
  | RuntimeError string

text \<open>
  What starting a child process can do: the call itself raises (the executable is
  missing or may not be run), or the process runs and exits with a return code; the
  text is what the captured pipe received.
\<close>

datatype proc_outcome =
    Raised py_error
  | Exited int string

text \<open>
  \<^item> \<open>environ\<close>: \<open>os.environ\<close>;
  \<^item> \<open>which\<close>: \<open>shutil.which\<close>;
  \<^item> \<open>run args merged\<close>: the child process started for \<open>args\<close>, with standard
    error sent to the captured pipe when \<open>merged\<close>;
  \<^item> \<open>cwd\<close>: \<open>os.getcwd()\<close>, which raises FileNotFoundError when the working
    directory has been removed;
  \<^item> \<open>realpath p\<close>: \<open>pathlib.Path(p).resolve(strict=True).as_posix()\<close> for a
    non-empty \<open>p\<close>, or the exception it raises;
  \<^item> \<open>path_exists\<close>: \<open>os.path.exists\<close>;
  \<^item> \<open>is_file\<close>: \<open>os.path.isfile\<close>. The script never asks for it; it is here
    to say of a path that it names a regular file.
\<close>

record world =
  environ :: "string \<Rightarrow> string option"
  which :: "string \<Rightarrow> string option"
  run :: "string list \<Rightarrow> bool \<Rightarrow> proc_outcome"
  cwd :: "py_error + string"
  realpath :: "string \<Rightarrow> py_error + string"
  path_exists :: "string \<Rightarrow> bool"
  is_file :: "string \<Rightarrow> bool"

text \<open>
  \<open>subprocess.check_output(args, text=True)\<close>: the captured text when the process
  exits with 0, CalledProcessError for any other return code, and the exception of the
  start when the process could not be started.
\<close>

definition check_output :: "world \<Rightarrow> string list \<Rightarrow> bool \<Rightarrow> py_error + string" where
  "check_output w args merged =
     (case run w args merged of
        Raised e \<Rightarrow> Inl e
      | Exited rc out \<Rightarrow> if rc \<noteq> 0 then Inl CalledProcessError else Inr out)"

text \<open>
  \<open>pathlib.Path(path).resolve(strict=True).as_posix()\<close>. \<open>Path('')\<close> is the path
  \<open>.\<close>; resolving it walks no component and ends in \<open>os.getcwd()\<close>, so it is the
  current working directory, or the FileNotFoundError of \<open>os.getcwd()\<close> when that
  directory is gone.
\<close>

definition path_resolve :: "world \<Rightarrow> string \<Rightarrow> py_error + string" where
  "path_resolve w path = (if path = [] then cwd w else realpath w path)"

text \<open>Truth of \<open>str | None\<close> in an \<open>if\<close>: neither \<open>None\<close> nor the empty string.\<close>

definition truthy :: "string option \<Rightarrow> bool" where
  "truthy v = (case v of None \<Rightarrow> False | Some s \<Rightarrow> s \<noteq> [])"

subsection \<open>Path lists and normalization\<close>

definition split_paths :: "string \<Rightarrow> string list" where
  "split_paths paths = split_str '':'' paths"

text \<open>
  The loop of \<open>standardize_paths\<close>: only FileNotFoundError is caught; any other
  exception of \<open>resolve\<close> leaves the function.
\<close>

fun standardize_loop :: "world \<Rightarrow> string list \<Rightarrow> string list \<Rightarrow> py_error + string list" where
  "standardize_loop w [] resolved_paths = Inr resolved_paths"
| "standardize_loop w (path # paths) resolved_paths =
     (case path_resolve w path of
        Inl e \<Rightarrow>
          (if e = FileNotFoundError then standardize_loop w paths resolved_paths
           else Inl e)
      | Inr p \<Rightarrow> standardize_loop w paths (List.insert p resolved_paths))"

definition standardize_paths :: "world \<Rightarrow> string list \<Rightarrow> py_error + string list" where
  "standardize_paths w paths = standardize_loop w paths []"

subsection \<open>Paths from the environment\<close>

text \<open>The local function \<open>_get_from_env\<close>, with the set it updates passed through.\<close>

definition get_from_env :: "world \<Rightarrow> string \<Rightarrow> string list \<Rightarrow> string list" where
  "get_from_env w name paths =
     (case environ w name of
        None \<Rightarrow> paths
      | Some env \<Rightarrow> if env \<noteq> [] then List.union (split_paths env) paths else paths)"

definition get_env_include_paths :: "world \<Rightarrow> string list" where
  "get_env_include_paths w =
     get_from_env w ''C_INCLUDE_PATH''
       (get_from_env w ''CPATH''
         (get_from_env w ''YOGRT_INCLUDE_PATH'' []))"

definition get_env_library_paths :: "world \<Rightarrow> string list" where
  "get_env_library_paths w =
     get_from_env w ''LIBRARY_PATH''
       (get_from_env w ''YOGRT_LIBRARY_PATH'' [])"

subsection \<open>Compiler and preprocessor\<close>

definition determine_compiler :: "world \<Rightarrow> string option" where
  "determine_compiler w =
     (if truthy (environ w ''CC'') then environ w ''CC''
      else if truthy (which w ''cc'') then which w ''cc''
      else if truthy (which w ''gcc'') then which w ''gcc''
      else if truthy (which w ''clang'') then which w ''clang''
      else None)"

definition determine_preprocessor :: "world \<Rightarrow> string \<Rightarrow> py_error + string option" where
  "determine_preprocessor w compiler =
     (case check_output w [compiler, ''-print-prog-name=cpp''] False of
        Inl e \<Rightarrow> (if e = CalledProcessError then Inr None else Inl e)
      | Inr cpp \<Rightarrow> Inr (Some (strip cpp)))"

text \<open>
  Lines 128 to 143 of \<open>get_compiler_include_paths\<close>, which lines 166 to 181 of
  \<open>get_compiler_library_paths\<close> repeat: the text printed by \<open>cpp -v\<close>, or
  \<open>None\<close> where the function returns its empty set early.
\<close>

definition cpp_verbose_output :: "world \<Rightarrow> py_error + string option" where
  "cpp_verbose_output w =
     (case determine_compiler w of
        None \<Rightarrow> Inr None
      | Some compiler \<Rightarrow>
          if compiler = [] then Inr None
          else
            (case determine_preprocessor w compiler of
               Inl e \<Rightarrow> Inl e
             | Inr None \<Rightarrow> Inr None
             | Inr (Some cpp) \<Rightarrow>
                 if cpp = [] then Inr None
                 else
                   (case check_output w [cpp, ''-v''] True of
                      Inl e \<Rightarrow> (if e = CalledProcessError then Inr None else Inl e)
                    | Inr output \<Rightarrow> Inr (Some output))))"

subsection \<open>Include paths of the compiler\<close>

definition include_start_marker :: string where
  "include_start_marker = ''#include <...> search starts here:''"

definition include_end_marker :: string where
  "include_end_marker = ''End of search list.''"

text \<open>Lines 145 to 158: the parsing of the trace.\<close>

definition parse_include_paths :: "string \<Rightarrow> string list" where
  "parse_include_paths output =
     (let lines = split_str [CHR 0x0A] output in
      case index_of lines include_start_marker of
        None \<Rightarrow> []
      | Some i \<Rightarrow>
          (case index_of lines include_end_marker of
             None \<Rightarrow> []
           | Some include_end \<Rightarrow>
               List.union (map strip (slice lines (i + 1) include_end)) []))"

definition get_compiler_include_paths :: "world \<Rightarrow> py_error + string list" where
  "get_compiler_include_paths w =
     (case cpp_verbose_output w of
        Inl e \<Rightarrow> Inl e
      | Inr None \<Rightarrow> Inr []
      | Inr (Some output) \<Rightarrow> Inr (parse_include_paths output))"

subsection \<open>Library paths of the compiler and of the linker cache\<close>

fun library_path_lines :: "string list \<Rightarrow> string list \<Rightarrow> string list" where
  "library_path_lines [] paths = paths"
| "library_path_lines (line # lines) paths =
     (if startswith line ''LIBRARY_PATH=''
      then library_path_lines lines
             (List.union (split_paths (drop (length ''LIBRARY_PATH='') line)) paths)
      else library_path_lines lines paths)"

definition get_compiler_library_paths :: "world \<Rightarrow> py_error + string list" where
  "get_compiler_library_paths w =
     (case cpp_verbose_output w of
        Inl e \<Rightarrow> Inl e
      | Inr None \<Rightarrow> Inr []
      | Inr (Some output) \<Rightarrow> Inr (library_path_lines (split_str [CHR 0x0A] output) []))"

text \<open>
  The loop over the lines of \<open>ldconfig -p\<close>. \<open>line.split(' => ')[1]\<close> raises
  IndexError when the line holds no separator.
\<close>

fun ldconfig_lines :: "string list \<Rightarrow> string list \<Rightarrow> py_error + string list" where
  "ldconfig_lines [] paths = Inr paths"
| "ldconfig_lines (line # lines) paths =
     (let line = strip line in
      if startswith line ''libyogrt.so ''
      then (case split_str '' => '' line of
              _ # path # _ \<Rightarrow> ldconfig_lines lines (List.insert path paths)
            | _ \<Rightarrow> Inl IndexError)
      else ldconfig_lines lines paths)"

definition get_ldconfig_library_paths :: "world \<Rightarrow> py_error + string list" where
  "get_ldconfig_library_paths w =
     (case check_output w [''ldconfig'', ''-p''] False of
        Inl e \<Rightarrow> (if e = CalledProcessError then Inr [] else Inl e)
      | Inr output \<Rightarrow> ldconfig_lines (split_str [CHR 0x0A] output) [])"

text \<open>
  A line of the listing that is an entry for \<open>libyogrt.so\<close> in the shape
  \<open>name => path\<close> that \<open>ldconfig -p\<close> prints: its trimmed text begins with
  \<open>libyogrt.so\<close> and a space, and \<open>name\<close> and \<open>path\<close> are the texts before
  and after its one separator. This is not code of the script: the theorems use it to
  speak about the listing.
\<close>

definition cache_line :: "string \<Rightarrow> string \<Rightarrow> string \<Rightarrow> bool" where
  "cache_line line name path =
     (startswith (strip line) ''libyogrt.so '' \<and>
      strip line = name @ '' => '' @ path \<and>
      CHR ''>'' \<notin> set name \<and> CHR ''>'' \<notin> set path)"

subsection \<open>The header\<close>

text \<open>Lines 215 to 220 of \<open>find_yogrt_h\<close>: the merged, normalized include paths.\<close>

definition include_search_paths :: "world \<Rightarrow> py_error + string list" where
  "include_search_paths w =
     (case get_compiler_include_paths w of
        Inl e \<Rightarrow> Inl e
      | Inr compiler_paths \<Rightarrow>
          standardize_paths w
            (List.insert ''/usr/local/include''
              (List.insert ''/usr/include''
                (List.union (get_env_include_paths w) compiler_paths))))"

text \<open>Lines 222 to 228: the loop over the set, in its iteration order.\<close>

fun find_header_in :: "world \<Rightarrow> string list \<Rightarrow> py_error + string" where
  "find_header_in w [] = Inl (RuntimeError ''Could not find yogrt.h'')"
| "find_header_in w (path # paths) =
     (let header_path = os_path_join path ''yogrt.h'' in
      if path_exists w header_path then Inr header_path
      else find_header_in w paths)"

definition find_yogrt_h :: "world \<Rightarrow> py_error + string" where
  "find_yogrt_h w =
     (case include_search_paths w of
        Inl e \<Rightarrow> Inl e
      | Inr paths \<Rightarrow> find_header_in w paths)"

subsection \<open>The library\<close>

text \<open>Lines 241 to 252 of \<open>find_yogrt_lib\<close>, with the linker cache's paths passed in.\<close>

definition merge_library_paths :: "world \<Rightarrow> string list \<Rightarrow> string list \<Rightarrow> string list" where
  "merge_library_paths w compiler_paths ldconfig_paths =
     List.insert ''/usr/local/lib64''
       (List.insert ''/usr/local/lib''
         (List.insert ''/usr/lib64''
           (List.insert ''/usr/lib''
             (List.insert ''/lib64''
               (List.insert ''/lib''
                 (List.union (List.union (get_env_library_paths w) compiler_paths)
                    ldconfig_paths))))))"

definition library_search_paths :: "world \<Rightarrow> py_error + string list" where
  "library_search_paths w =
     (case get_compiler_library_paths w of
        Inl e \<Rightarrow> Inl e
      | Inr compiler_paths \<Rightarrow>
          (case get_ldconfig_library_paths w of
             Inl e \<Rightarrow> Inl e
           | Inr ldconfig_paths \<Rightarrow>
               standardize_paths w (merge_library_paths w compiler_paths ldconfig_paths)))"

text \<open>Lines 254 to 262: the filter, and the error on an empty result.\<close>

fun libyogrt_loop :: "world \<Rightarrow> string list \<Rightarrow> string list \<Rightarrow> string list" where
  "libyogrt_loop w [] paths_with_libyogrt = paths_with_libyogrt"
| "libyogrt_loop w (path # paths) paths_with_libyogrt =
     (if path_exists w (os_path_join path ''libyogrt.so'')
      then libyogrt_loop w paths (List.insert path paths_with_libyogrt)
      else libyogrt_loop w paths paths_with_libyogrt)"

definition find_lib_in :: "world \<Rightarrow> string list \<Rightarrow> py_error + string list" where
  "find_lib_in w paths =
     (let paths_with_libyogrt = libyogrt_loop w paths [] in
      if paths_with_libyogrt = [] then Inl (RuntimeError ''Could not find libyogrt.so'')
      else Inr paths_with_libyogrt)"

definition find_yogrt_lib :: "world \<Rightarrow> py_error + string list" where
  "find_yogrt_lib w =
     (case library_search_paths w of
        Inl e \<Rightarrow> Inl e
      | Inr paths \<Rightarrow> find_lib_in w paths)"

subsection \<open>Example hosts\<close>

text \<open>
  A host with nothing on it but the working directory \<open>/home/user\<close>: no environment
  variable, no executable, no file. The examples below change the fields they need.
\<close>

definition bare_host :: world where
  "bare_host =
     \<lparr>environ = (\<lambda>name. None),
      which = (\<lambda>cmd. None),
      run = (\<lambda>args merged. Raised FileNotFoundError),
      cwd = Inr ''/home/user'',
      realpath = (\<lambda>p. if p = ''/home/user'' then Inr p else Inl FileNotFoundError),
      path_exists = (\<lambda>p. p = ''/home/user''),
      is_file = (\<lambda>p. False)\<rparr>"

text \<open>
  A host as in the end-to-end scenario of the specification: \<open>CC\<close> names a working
  gcc, the header is under \<open>/opt/yogrt/include\<close>, the library under
  \<open>/opt/yogrt/lib\<close>, and \<open>/lib\<close> is a symbolic link to \<open>/usr/lib\<close>. The
  preprocessor writes its trace to standard error. The linker cache knows a second copy
  of the library, \<open>/opt/lib/libyogrt.so\<close>.
\<close>

definition cpp_trace :: string where
  "cpp_trace =
     ''#include <...> search starts here:'' @ [CHR 0x0A] @
     '' /usr/lib/gcc/include'' @ [CHR 0x0A] @
     '' /usr/local/include'' @ [CHR 0x0A] @
     '' /usr/include'' @ [CHR 0x0A] @
     ''End of search list.'' @ [CHR 0x0A] @
     ''LIBRARY_PATH=/usr/lib/gcc/:/usr/lib/'' @ [CHR 0x0A]"

definition ldconfig_listing :: string where
  "ldconfig_listing =
     ''2 libs found in cache'' @ [CHR 0x0A] @
     [CHR 0x09] @ ''libyogrt.so.1 (libc6) => /opt/lib/libyogrt.so.1'' @ [CHR 0x0A] @
     [CHR 0x09] @ ''libyogrt.so (libc6) => /opt/lib/libyogrt.so'' @ [CHR 0x0A]"

definition yogrt_host :: world where
  "yogrt_host =
     \<lparr>environ = [''CC'' \<mapsto> ''/usr/bin/gcc'',
                 ''YOGRT_INCLUDE_PATH'' \<mapsto> ''/opt/yogrt/include'',
                 ''YOGRT_LIBRARY_PATH'' \<mapsto> ''/opt/yogrt/lib''],
      which = [''gcc'' \<mapsto> ''/usr/bin/gcc''],
      run = (\<lambda>args merged.
               if args = [''/usr/bin/gcc'', ''-print-prog-name=cpp''] then
                 Exited 0 (''cpp'' @ [CHR 0x0A])
               else if args = [''cpp'', ''-v''] then Exited 0 (if merged then cpp_trace else [])
               else if args = [''ldconfig'', ''-p''] then Exited 0 ldconfig_listing
               else Raised FileNotFoundError),
      cwd = Inr ''/home/user'',
      realpath = (\<lambda>p. if p \<in> set [''/home/user'', ''/usr/include'', ''/usr/lib'',
                                     ''/usr/lib/gcc'', ''/usr/lib/gcc/include'',
                                     ''/opt/yogrt/include'', ''/opt/yogrt/lib'',
                                     ''/opt/lib/libyogrt.so'']
                        then Inr p
                        else if p = ''/lib'' \<or> p = ''/usr/lib/'' then Inr ''/usr/lib''
                        else if p = ''/usr/lib/gcc/'' then Inr ''/usr/lib/gcc''
                        else Inl FileNotFoundError),
      path_exists = (\<lambda>p. p \<in> set [''/home/user'', ''/usr/include'', ''/usr/lib'',
                                     ''/usr/lib/gcc'', ''/usr/lib/gcc/include'',
                                     ''/opt/yogrt/include'', ''/opt/yogrt/lib'',
                                     ''/opt/yogrt/include/yogrt.h'',
                                     ''/opt/yogrt/lib/libyogrt.so'',
                                     ''/opt/lib/libyogrt.so'']),
      is_file = (\<lambda>p. p \<in> set [''/opt/yogrt/include/yogrt.h'',
                                 ''/opt/yogrt/lib/libyogrt.so'',
                                 ''/opt/lib/libyogrt.so''])\<rparr>"

text \<open>
  A host without a compiler, whose only copy of the library is
  \<open>/opt/lib/libyogrt.so\<close>, known to the linker cache alone.
\<close>

definition cache_host :: world where
  "cache_host =
     bare_host
       \<lparr>run := (\<lambda>args merged.
                  if args = [''ldconfig'', ''-p''] then Exited 0 ldconfig_listing
                  else Raised FileNotFoundError),
        realpath := (\<lambda>p. if p \<in> set [''/home/user'', ''/usr/include'', ''/usr/lib'',
                                       ''/opt/lib'', ''/opt/lib/libyogrt.so'']
                          then Inr p else Inl FileNotFoundError),
        path_exists := (\<lambda>p. p \<in> set [''/home/user'', ''/usr/include'', ''/usr/lib'',
                                         ''/opt/lib'', ''/opt/lib/libyogrt.so'']),
        is_file := (\<lambda>p. p = ''/opt/lib/libyogrt.so'')\<rparr>"

text \<open>
  A process whose working directory has been removed after it started, with a trailing
  colon in \<open>CPATH\<close>: \<open>os.getcwd()\<close> raises FileNotFoundError.
\<close>

definition gone_host :: world where
  "gone_host =
     bare_host
       \<lparr>environ := [''CPATH'' \<mapsto> ''/a:''],
        cwd := Inl FileNotFoundError,
        realpath := (\<lambda>p. Inl FileNotFoundError),
        path_exists := (\<lambda>p. False)\<rparr>"

text \<open>
  A host where \<open>/etc/passwd\<close> is a regular file: resolving a path below it raises
  NotADirectoryError.
\<close>

definition passwd_host :: world where
  "passwd_host =
     bare_host
       \<lparr>realpath := (\<lambda>p. if p \<in> set [''/home/user'', ''/etc/passwd''] then Inr p
                          else if p = ''/etc/passwd/include'' then Inl NotADirectoryError
                          else Inl FileNotFoundError),
        path_exists := (\<lambda>p. p \<in> set [''/home/user'', ''/etc/passwd'']),
        is_file := (\<lambda>p. p = ''/etc/passwd'')\<rparr>"

section \<open>Properties\<close>

subsection \<open>The environment's library paths\<close>

text \<open>
  C2. The claim: the library paths of the environment are read from the variable
  \<open>YOGRT_LIB_PATH\<close> (and \<open>LIBRARY_PATH\<close>), so that every path listed in
  \<open>YOGRT_LIB_PATH\<close> is among the enumerated library paths. The docstring of
  \<open>get_env_library_paths\<close> names that variable, but the body reads
  \<open>YOGRT_LIBRARY_PATH\<close>: with only \<open>YOGRT_LIB_PATH\<close> set to
  \<open>/opt/yogrt/lib\<close> the function returns the empty set, while the same value under
  \<open>YOGRT_LIBRARY_PATH\<close> is returned.
\<close>

theorem yogrt_lib_path_not_read:
  "get_env_library_paths
     (bare_host\<lparr>environ := [''YOGRT_LIB_PATH'' \<mapsto> ''/opt/yogrt/lib'']\<rparr>) = []
   \<and> get_env_library_paths
     (bare_host\<lparr>environ := [''YOGRT_LIBRARY_PATH'' \<mapsto> ''/opt/yogrt/lib'']\<rparr>)
       = [''/opt/yogrt/lib'']"
  by (simp add: get_env_library_paths_def get_from_env_def bare_host_def split_paths_def
      startswith_def List.union_def List.insert_def)

subsection \<open>Compiler resolution\<close>

text \<open>
  C5. Compiler resolution is a strict first match: a \<open>CC\<close> that is set and not empty is
  returned whatever \<open>shutil.which\<close> finds; otherwise the first of \<open>cc\<close>, \<open>gcc\<close>,
  \<open>clang\<close> that \<open>shutil.which\<close> finds is returned; when none is found the result is
  \<open>None\<close>. The function has no error result: it raises nothing.
\<close>

theorem determine_compiler_priority:
  "(\<forall>c. environ w ''CC'' = Some c \<and> c \<noteq> [] \<longrightarrow> determine_compiler w = Some c) \<and>
   (\<not> truthy (environ w ''CC'') \<longrightarrow>
      (truthy (which w ''cc'') \<longrightarrow> determine_compiler w = which w ''cc'') \<and>
      (\<not> truthy (which w ''cc'') \<and> truthy (which w ''gcc'') \<longrightarrow>
         determine_compiler w = which w ''gcc'') \<and>
      (\<not> truthy (which w ''cc'') \<and> \<not> truthy (which w ''gcc'') \<and> truthy (which w ''clang'') \<longrightarrow>
         determine_compiler w = which w ''clang'') \<and>
      (\<not> truthy (which w ''cc'') \<and> \<not> truthy (which w ''gcc'') \<and> \<not> truthy (which w ''clang'') \<longrightarrow>
         determine_compiler w = None))"
  by (simp add: determine_compiler_def truthy_def)

text \<open>
  Three hosts: \<open>CC\<close> set next to a \<open>cc\<close> and a \<open>gcc\<close> on the search path; an empty
  \<open>CC\<close> with \<open>gcc\<close> and \<open>clang\<close> but no \<open>cc\<close>; and nothing at all.
\<close>

theorem determine_compiler_priority_witness:
  "determine_compiler
     (bare_host\<lparr>environ := [''CC'' \<mapsto> ''/opt/bin/mycc''],
                 which := [''cc'' \<mapsto> ''/usr/bin/cc'', ''gcc'' \<mapsto> ''/usr/bin/gcc'']\<rparr>)
     = Some ''/opt/bin/mycc''
   \<and> determine_compiler
     (bare_host\<lparr>environ := [''CC'' \<mapsto> ''''],
                 which := [''gcc'' \<mapsto> ''/usr/bin/gcc'', ''clang'' \<mapsto> ''/usr/bin/clang'']\<rparr>)
     = Some ''/usr/bin/gcc''
   \<and> determine_compiler bare_host = None"
  using determine_compiler_priority
          [of "bare_host\<lparr>environ := [''CC'' \<mapsto> ''/opt/bin/mycc''],
                 which := [''cc'' \<mapsto> ''/usr/bin/cc'', ''gcc'' \<mapsto> ''/usr/bin/gcc'']\<rparr>"]
        determine_compiler_priority
          [of "bare_host\<lparr>environ := [''CC'' \<mapsto> ''''],
                 which := [''gcc'' \<mapsto> ''/usr/bin/gcc'', ''clang'' \<mapsto> ''/usr/bin/clang'']\<rparr>"]
        determine_compiler_priority [of bare_host]
  by (simp add: truthy_def bare_host_def)

subsection \<open>Facts about splitting and indexing\<close>

lemma split_str_not_Nil: "split_str sep s \<noteq> []"
  by (induction sep s rule: split_str.induct) (auto split: list.splits)

lemma split_str_char_append:
  "split_str [c] (a @ c # b) = split_str [c] a @ split_str [c] b"
proof (induction a)
  case Nil
  show ?case by (simp add: startswith_def)
next
  case (Cons x a)
  obtain seg segs where s: "split_str [c] a = seg # segs"
    using split_str_not_Nil [of "[c]" a] by (cases "split_str [c] a") auto
  show ?case
  proof (cases "x = c")
    case True
    then show ?thesis using Cons by (simp add: startswith_def)
  next
    case False
    then show ?thesis using Cons s by (simp add: startswith_def)
  qed
qed

lemma startswith_arrow_gt:
  assumes "startswith s '' => ''"
  shows "CHR ''>'' \<in> set s"
proof -
  have "take (length '' => '') s = '' => ''"
    using assms unfolding startswith_def .
  moreover have "CHR ''>'' \<in> set '' => ''" by simp
  ultimately have "CHR ''>'' \<in> set (take (length '' => '') s)" by (simp only:)
  then show ?thesis by (rule in_set_takeD)
qed

lemma split_str_arrow_none:
  "CHR ''>'' \<notin> set p \<Longrightarrow> split_str '' => '' p = [p]"
proof (induction p)
  case Nil
  show ?case by simp
next
  case (Cons x p)
  have "\<not> startswith (x # p) '' => ''"
    using Cons.prems startswith_arrow_gt by blast
  then show ?case using Cons by simp
qed

lemma split_str_arrow_first:
  "CHR ''>'' \<notin> set a \<Longrightarrow>
   split_str '' => '' (a @ '' => '' @ p) = a # split_str '' => '' p"
proof (induction a)
  case Nil
  show ?case by (simp add: startswith_def)
next
  case (Cons x a)
  have "\<not> startswith (x # a @ '' => '' @ p) '' => ''"
  proof (cases a)
    case Nil
    then show ?thesis by (simp add: startswith_def)
  next
    case outer: (Cons y b)
    show ?thesis
    proof (cases b)
      case Nil
      then show ?thesis using outer by (simp add: startswith_def)
    next
      case (Cons z d)
      then show ?thesis using outer \<open>CHR ''>'' \<notin> set (x # a)\<close>
        by (auto simp add: startswith_def)
    qed
  qed
  then show ?case using Cons by simp
qed


subsection \<open>Include paths in the preprocessor's trace\<close>



subsection \<open>The linker cache listing\<close>

lemma cache_line_split:
  assumes "cache_line l name path"
  shows "split_str '' => '' (strip l) = [name, path]"
proof -
  have "split_str '' => '' (name @ '' => '' @ path) = [name, path]"
    using assms split_str_arrow_first [of name path] split_str_arrow_none [of path]
    by (simp add: cache_line_def)
  moreover have "strip l = name @ '' => '' @ path"
    using assms unfolding cache_line_def by blast
  ultimately show ?thesis by (simp only:)
qed

lemma cache_line_step:
  assumes "cache_line l name path"
  shows "ldconfig_lines (l # lines) paths = ldconfig_lines lines (List.insert path paths)"
proof -
  have p: "startswith (strip l) ''libyogrt.so ''"
    using assms unfolding cache_line_def by (rule conjunct1)
  have s: "split_str '' => '' (strip l) = [name, path]"
    using assms by (rule cache_line_split)
  show ?thesis
    by (simp only: ldconfig_lines.simps Let_def p s if_True list.case)
qed

lemma cache_line_unique:
  assumes "cache_line l n p" and "cache_line l n' p'"
  shows "p' = p"
proof -
  have "[n', p'] = split_str '' => '' (strip l)"
    using cache_line_split [OF assms(2)] by (rule sym)
  also have "\<dots> = [n, p]"
    using assms(1) by (rule cache_line_split)
  finally show ?thesis by (simp only: list.inject)
qed

lemma ldconfig_lines_result:
  assumes "\<forall>l\<in>set lines. startswith (strip l) ''libyogrt.so '' \<longrightarrow> (\<exists>n p. cache_line l n p)"
  shows "\<exists>R. ldconfig_lines lines paths = Inr R \<and>
             set R = set paths \<union> {p. \<exists>l\<in>set lines. \<exists>n. cache_line l n p}"
  using assms
proof (induction lines arbitrary: paths)
  case Nil
  show ?case by simp
next
  case (Cons l lines)
  let ?C = "\<lambda>ls. {p. \<exists>l\<in>set ls. \<exists>n. cache_line l n p}"
  from Cons.prems
  have wf: "\<forall>l\<in>set lines. startswith (strip l) ''libyogrt.so '' \<longrightarrow> (\<exists>n p. cache_line l n p)"
    by (simp only: list.set ball_simps) blast
  have split: "?C (l # lines) = {p. \<exists>n. cache_line l n p} \<union> ?C lines"
    by (simp only: list.set bex_simps) blast
  show ?case
  proof (cases "startswith (strip l) ''libyogrt.so ''")
    case False
    then have none: "{p. \<exists>n. cache_line l n p} = {}"
      unfolding cache_line_def by blast
    have step: "ldconfig_lines (l # lines) paths = ldconfig_lines lines paths"
      using False by (simp only: ldconfig_lines.simps Let_def if_False)
    obtain R where r: "ldconfig_lines lines paths = Inr R"
      and s: "set R = set paths \<union> ?C lines"
      using Cons.IH [OF wf, of paths] by blast
    have "ldconfig_lines (l # lines) paths = Inr R"
      using step r by (rule trans)
    moreover have "set R = set paths \<union> ?C (l # lines)"
      unfolding split none using s by blast
    ultimately show ?thesis by blast
  next
    case True
    with Cons.prems obtain name path where c: "cache_line l name path"
      by (simp only: list.set ball_simps) blast
    have one: "{p. \<exists>n. cache_line l n p} = {path}"
      using c cache_line_unique [OF c] by blast
    obtain R where r: "ldconfig_lines lines (List.insert path paths) = Inr R"
      and s: "set R = set (List.insert path paths) \<union> ?C lines"
      using Cons.IH [OF wf, of "List.insert path paths"] by blast
    have "ldconfig_lines (l # lines) paths = Inr R"
      using cache_line_step [OF c] r by (rule trans)
    moreover have "set (List.insert path paths) = insert path (set paths)"
      by (rule List.set_insert)
    then have "set R = set paths \<union> ?C (l # lines)"
      unfolding split one using s by blast
    ultimately show ?thesis by blast
  qed
qed

text \<open>
  C7. A line of the listing whose trimmed text does not begin with \<open>libyogrt.so\<close>
  followed by a space contributes nothing, so a line for \<open>libyogrt.so.1\<close> does not;
  an entry \<open>name => path\<close> for \<open>libyogrt.so\<close> contributes \<open>path\<close>, the text after
  the separator. For a listing whose lines with that prefix are all such entries, the
  parsing returns the paths it started with and exactly the paths of these entries:
  nothing for an empty listing or for one that names only other libraries.
  \<open>get_ldconfig_library_paths\<close> is this parsing of the text \<open>ldconfig -p\<close> printed,
  started with no path.
\<close>

theorem ldconfig_exact_name:
  "(\<not> startswith (strip line) ''libyogrt.so '' \<longrightarrow>
      ldconfig_lines (line # lines) paths = ldconfig_lines lines paths) \<and>
   (cache_line line name path \<longrightarrow>
      ldconfig_lines (line # lines) paths = ldconfig_lines lines (List.insert path paths)) \<and>
   ((\<forall>l\<in>set lines. startswith (strip l) ''libyogrt.so '' \<longrightarrow> (\<exists>n p. cache_line l n p)) \<longrightarrow>
      (\<exists>R. ldconfig_lines lines paths = Inr R \<and>
           set R = set paths \<union> {p. \<exists>l\<in>set lines. \<exists>n. cache_line l n p})) \<and>
   (run w [''ldconfig'', ''-p''] False = Exited 0 listing \<longrightarrow>
      get_ldconfig_library_paths w = ldconfig_lines (split_str [CHR 0x0A] listing) [])"
proof (intro conjI impI)
  assume "\<not> startswith (strip line) ''libyogrt.so ''"
  then show "ldconfig_lines (line # lines) paths = ldconfig_lines lines paths"
    by (simp add: Let_def)
next
  assume "cache_line line name path"
  then show "ldconfig_lines (line # lines) paths = ldconfig_lines lines (List.insert path paths)"
    by (rule cache_line_step)
next
  assume "\<forall>l\<in>set lines. startswith (strip l) ''libyogrt.so '' \<longrightarrow> (\<exists>n p. cache_line l n p)"
  then show "\<exists>R. ldconfig_lines lines paths = Inr R \<and>
           set R = set paths \<union> {p. \<exists>l\<in>set lines. \<exists>n. cache_line l n p}"
    by (rule ldconfig_lines_result)
next
  assume "run w [''ldconfig'', ''-p''] False = Exited 0 listing"
  then show "get_ldconfig_library_paths w = ldconfig_lines (split_str [CHR 0x0A] listing) []"
    by (simp add: get_ldconfig_library_paths_def check_output_def)
qed

theorem ldconfig_exact_name_witness:
  "ldconfig_lines
     [''libyogrt.so.1 => /opt/lib/libyogrt.so.1'', ''libyogrt.so => /opt/lib/libyogrt.so''] []
   = Inr [''/opt/lib/libyogrt.so''] \<and>
   (\<exists>R. ldconfig_lines [''libyogrt.so.1 => /opt/lib/libyogrt.so.1''] [] = Inr R \<and> set R = {}) \<and>
   get_ldconfig_library_paths cache_host = Inr [''/opt/lib/libyogrt.so'']"
proof -
  define l1 where "l1 = ''libyogrt.so.1 => /opt/lib/libyogrt.so.1''"
  define l2 where "l2 = ''libyogrt.so => /opt/lib/libyogrt.so''"
  define name where "name = ''libyogrt.so''"
  define path where "path = ''/opt/lib/libyogrt.so''"
  have n1: "\<not> startswith (strip l1) ''libyogrt.so ''"
    unfolding l1_def by code_simp
  have c2: "cache_line l2 name path"
    unfolding l2_def name_def path_def by code_simp
  have "ldconfig_lines [l1, l2] [] = ldconfig_lines [l2] []"
    using ldconfig_exact_name [where line = l1 and lines = "[l2]" and paths = "[]",
        THEN conjunct1] n1
    by (rule mp)
  also have "\<dots> = ldconfig_lines [] (List.insert path [])"
    using ldconfig_exact_name [where line = l2 and lines = "[]" and paths = "[]"
        and name = name and path = path, THEN conjunct2, THEN conjunct1] c2
    by (rule mp)
  also have "\<dots> = Inr [path]"
    by simp
  finally have a: "ldconfig_lines [l1, l2] [] = Inr [path]" .
  have none: "\<not> cache_line l1 n p" for n p
    using n1 unfolding cache_line_def by blast
  have wf: "\<forall>l\<in>set [l1]. startswith (strip l) ''libyogrt.so '' \<longrightarrow> (\<exists>n p. cache_line l n p)"
    using n1 by simp
  have "\<exists>R. ldconfig_lines [l1] [] = Inr R \<and>
           set R = set [] \<union> {p. \<exists>l\<in>set [l1]. \<exists>n. cache_line l n p}"
    using ldconfig_exact_name [where lines = "[l1]" and paths = "[]",
        THEN conjunct2, THEN conjunct2, THEN conjunct1] wf
    by (rule mp)
  then obtain R where r: "ldconfig_lines [l1] [] = Inr R"
    and "set R = set [] \<union> {p. \<exists>l\<in>set [l1]. \<exists>n. cache_line l n p}"
    by (elim exE conjE)
  then have "set R = {}"
    using none by simp
  with r have b: "\<exists>R. ldconfig_lines [l1] [] = Inr R \<and> set R = {}"
    by (intro exI conjI)
  have "run cache_host [''ldconfig'', ''-p''] False = Exited 0 ldconfig_listing"
    by (simp add: cache_host_def)
  with ldconfig_exact_name [where w = cache_host and listing = ldconfig_listing,
        THEN conjunct2, THEN conjunct2, THEN conjunct2]
  have "get_ldconfig_library_paths cache_host =
               ldconfig_lines (split_str [CHR 0x0A] ldconfig_listing) []"
    by (rule mp)
  also have "\<dots> = Inr [path]"
    unfolding path_def by code_simp
  finally have c: "get_ldconfig_library_paths cache_host = Inr [path]" .
  from a b c show ?thesis
    unfolding l1_def l2_def path_def by (intro conjI)
qed

subsection \<open>Header lookup\<close>

lemma find_header_in_Inr:
  "\<exists>d\<in>set ps. path_exists w (os_path_join d ''yogrt.h'') \<Longrightarrow>
   \<exists>d\<in>set ps. find_header_in w ps = Inr (os_path_join d ''yogrt.h'') \<and>
               path_exists w (os_path_join d ''yogrt.h'')"
  by (induction ps) (auto simp: Let_def)

lemma find_header_in_Inl:
  "find_header_in w ps = Inl e \<longleftrightarrow>
   e = RuntimeError ''Could not find yogrt.h'' \<and>
   (\<forall>d\<in>set ps. \<not> path_exists w (os_path_join d ''yogrt.h''))"
  by (induction ps) (auto simp: Let_def)

text \<open>
  C3. Header lookup over the merged, normalized include paths \<open>ps\<close>, in whatever order
  the set is iterated: when some directory of \<open>ps\<close> contains \<open>yogrt.h\<close>, the result
  is the path \<open>dir/yogrt.h\<close> of a directory of \<open>ps\<close>, and that path exists; the
  error "Could not find yogrt.h" is raised exactly when no directory of \<open>ps\<close>
  contains the header; the loop raises nothing else and has no fallback result.
  \<open>find_yogrt_h\<close> is this loop run on \<open>include_search_paths\<close>.
\<close>

theorem find_yogrt_h_lookup:
  "((\<exists>d\<in>set ps. path_exists w (os_path_join d ''yogrt.h'')) \<longrightarrow>
      (\<exists>d\<in>set ps. find_header_in w ps = Inr (os_path_join d ''yogrt.h'') \<and>
                  path_exists w (os_path_join d ''yogrt.h''))) \<and>
   (find_header_in w ps = Inl (RuntimeError ''Could not find yogrt.h'') \<longleftrightarrow>
      (\<forall>d\<in>set ps. \<not> path_exists w (os_path_join d ''yogrt.h''))) \<and>
   (\<forall>e. find_header_in w ps = Inl e \<longrightarrow> e = RuntimeError ''Could not find yogrt.h'') \<and>
   (include_search_paths w = Inr ps \<longrightarrow> find_yogrt_h w = find_header_in w ps)"
proof -
  have "find_yogrt_h w = find_header_in w ps" if "include_search_paths w = Inr ps"
    using that by (simp add: find_yogrt_h_def)
  then show ?thesis
    using find_header_in_Inr [of ps w] find_header_in_Inl [of w ps] by blast
qed

theorem find_yogrt_h_lookup_witness:
  "find_yogrt_h yogrt_host = Inr ''/opt/yogrt/include/yogrt.h'' \<and>
   path_exists yogrt_host ''/opt/yogrt/include/yogrt.h'' \<and>
   find_yogrt_h cache_host = Inl (RuntimeError ''Could not find yogrt.h'')"
proof -
  define ps where "ps = [''/usr/lib/gcc/include'', ''/usr/include'', ''/opt/yogrt/include'']"
  define qs where "qs = [''/usr/include'']"
  define hdr where "hdr = ''/opt/yogrt/include/yogrt.h''"
  have p: "include_search_paths yogrt_host = Inr ps"
    unfolding ps_def by code_simp
  have q: "include_search_paths cache_host = Inr qs"
    unfolding qs_def by code_simp
  have x: "\<exists>d\<in>set ps. path_exists yogrt_host (os_path_join d ''yogrt.h'')"
    unfolding ps_def by code_simp
  have y: "\<forall>d\<in>set ps. path_exists yogrt_host (os_path_join d ''yogrt.h'') \<longrightarrow>
             os_path_join d ''yogrt.h'' = hdr"
    unfolding ps_def hdr_def by code_simp
  have z: "\<forall>d\<in>set qs. \<not> path_exists cache_host (os_path_join d ''yogrt.h'')"
    unfolding qs_def by code_simp
  note h = find_yogrt_h_lookup [of ps yogrt_host]
  note c = find_yogrt_h_lookup [of qs cache_host]
  from h x obtain d where d: "d \<in> set ps"
    and f: "find_header_in yogrt_host ps = Inr (os_path_join d ''yogrt.h'')"
    and e: "path_exists yogrt_host (os_path_join d ''yogrt.h'')"
    by blast
  from y d e have j: "os_path_join d ''yogrt.h'' = hdr" by blast
  from h p have "find_yogrt_h yogrt_host = find_header_in yogrt_host ps" by blast
  with f j have a: "find_yogrt_h yogrt_host = Inr hdr" by simp
  from e j have g: "path_exists yogrt_host hdr" by simp
  from c z have "find_header_in cache_host qs = Inl (RuntimeError ''Could not find yogrt.h'')"
    by blast
  moreover from c q have "find_yogrt_h cache_host = find_header_in cache_host qs" by blast
  ultimately have b: "find_yogrt_h cache_host = Inl (RuntimeError ''Could not find yogrt.h'')"
    by simp
  from a g b show ?thesis unfolding hdr_def by (intro conjI)
qed

subsection \<open>Library lookup\<close>

lemma set_libyogrt_loop:
  "set (libyogrt_loop w ps acc) =
   set acc \<union> {d \<in> set ps. path_exists w (os_path_join d ''libyogrt.so'')}"
  by (induction ps arbitrary: acc) auto

text \<open>
  C4. Library lookup over the merged, normalized library paths \<open>ps\<close>: a returned set
  holds exactly the directories of \<open>ps\<close> where \<open>dir/libyogrt.so\<close> exists, all of
  them, and is not empty; the error "Could not find libyogrt.so" is raised exactly when
  no directory of \<open>ps\<close> passes the filter, and nothing else is raised.
  \<open>find_yogrt_lib\<close> is this filter run on \<open>library_search_paths\<close>.
\<close>

theorem find_yogrt_lib_filter:
  "(\<forall>R. find_lib_in w ps = Inr R \<longrightarrow>
      set R = {d \<in> set ps. path_exists w (os_path_join d ''libyogrt.so'')} \<and> R \<noteq> []) \<and>
   (find_lib_in w ps = Inl (RuntimeError ''Could not find libyogrt.so'') \<longleftrightarrow>
      {d \<in> set ps. path_exists w (os_path_join d ''libyogrt.so'')} = {}) \<and>
   (\<forall>e. find_lib_in w ps = Inl e \<longrightarrow> e = RuntimeError ''Could not find libyogrt.so'') \<and>
   (library_search_paths w = Inr ps \<longrightarrow> find_yogrt_lib w = find_lib_in w ps)"
proof -
  let ?L = "libyogrt_loop w ps []"
  have s: "set ?L = {d \<in> set ps. path_exists w (os_path_join d ''libyogrt.so'')}"
    by (simp add: set_libyogrt_loop)
  have e: "?L = [] \<longleftrightarrow> {d \<in> set ps. path_exists w (os_path_join d ''libyogrt.so'')} = {}"
    using s by (metis set_empty)
  have a: "\<forall>R. find_lib_in w ps = Inr R \<longrightarrow>
      set R = {d \<in> set ps. path_exists w (os_path_join d ''libyogrt.so'')} \<and> R \<noteq> []"
    using s by (auto simp: find_lib_in_def Let_def split: if_splits)
  have b: "find_lib_in w ps = Inl (RuntimeError ''Could not find libyogrt.so'') \<longleftrightarrow>
      {d \<in> set ps. path_exists w (os_path_join d ''libyogrt.so'')} = {}"
    using e by (simp add: find_lib_in_def Let_def)
  have c: "\<forall>e. find_lib_in w ps = Inl e \<longrightarrow> e = RuntimeError ''Could not find libyogrt.so''"
    by (auto simp: find_lib_in_def Let_def split: if_splits)
  have d: "library_search_paths w = Inr ps \<longrightarrow> find_yogrt_lib w = find_lib_in w ps"
    by (simp add: find_yogrt_lib_def)
  show ?thesis using a b c d by blast
qed

theorem find_yogrt_lib_filter_witness:
  "(\<exists>R. find_yogrt_lib yogrt_host = Inr R \<and> set R = {''/opt/yogrt/lib''}) \<and>
   find_yogrt_lib cache_host = Inl (RuntimeError ''Could not find libyogrt.so'')"
proof -
  define ps where
    "ps = [''/opt/lib/libyogrt.so'', ''/opt/yogrt/lib'', ''/usr/lib/gcc'', ''/usr/lib'']"
  define qs where "qs = [''/opt/lib/libyogrt.so'', ''/usr/lib'']"
  define lib where "lib = ''/opt/yogrt/lib''"
  have p: "library_search_paths yogrt_host = Inr ps"
    unfolding ps_def by code_simp
  have q: "library_search_paths cache_host = Inr qs"
    unfolding qs_def by code_simp
  have x: "\<forall>d\<in>set ps. path_exists yogrt_host (os_path_join d ''libyogrt.so'') \<longleftrightarrow> d = lib"
    unfolding ps_def lib_def by code_simp
  have m: "lib \<in> set ps"
    unfolding ps_def lib_def by code_simp
  have y: "\<forall>d\<in>set qs. \<not> path_exists cache_host (os_path_join d ''libyogrt.so'')"
    unfolding qs_def by code_simp
  have sx: "{d \<in> set ps. path_exists yogrt_host (os_path_join d ''libyogrt.so'')} = {lib}"
    using x m by blast
  have sy: "{d \<in> set qs. path_exists cache_host (os_path_join d ''libyogrt.so'')} = {}"
    using y by blast
  note h = find_yogrt_lib_filter [of yogrt_host ps]
  note c = find_yogrt_lib_filter [of cache_host qs]
  obtain R where r: "find_lib_in yogrt_host ps = Inr R"
  proof (cases "find_lib_in yogrt_host ps")
    case (Inl e)
    with h have "find_lib_in yogrt_host ps = Inl (RuntimeError ''Could not find libyogrt.so'')"
      by blast
    with h sx show ?thesis by blast
  next
    case (Inr R)
    then show ?thesis by (rule that)
  qed
  with h sx have sr: "set R = {lib}" by simp
  from h p have "find_yogrt_lib yogrt_host = find_lib_in yogrt_host ps" by blast
  with r sr have a: "\<exists>R. find_yogrt_lib yogrt_host = Inr R \<and> set R = {lib}" by simp
  from c sy have "find_lib_in cache_host qs = Inl (RuntimeError ''Could not find libyogrt.so'')"
    by blast
  moreover from c q have "find_yogrt_lib cache_host = find_lib_in cache_host qs" by blast
  ultimately have b: "find_yogrt_lib cache_host = Inl (RuntimeError ''Could not find libyogrt.so'')"
    by simp
  from a b show ?thesis unfolding lib_def by (rule conjI)
qed

subsection \<open>Normalization\<close>

lemma standardize_loop_Inr:
  "standardize_loop w ps acc = Inr R \<Longrightarrow>
   set R = set acc \<union> {q. \<exists>p\<in>set ps. path_resolve w p = Inr q}"
proof (induction ps arbitrary: acc)
  case Nil
  then show ?case by simp
next
  case (Cons p ps)
  show ?case
  proof (cases "path_resolve w p")
    case (Inl e)
    then show ?thesis using Cons by (auto split: if_splits)
  next
    case (Inr q)
    then have "standardize_loop w ps (List.insert q acc) = Inr R" using Cons.prems by simp
    from Cons.IH [OF this] show ?thesis using Inr by auto
  qed
qed

lemma standardize_loop_Inl:
  "standardize_loop w ps acc = Inl e \<Longrightarrow>
   e \<noteq> FileNotFoundError \<and> (\<exists>p\<in>set ps. path_resolve w p = Inl e)"
  by (induction ps arbitrary: acc) (auto split: sum.splits if_splits)

lemma standardize_loop_total:
  "\<forall>p\<in>set ps. \<forall>e. path_resolve w p = Inl e \<longrightarrow> e = FileNotFoundError \<Longrightarrow>
   \<exists>R. standardize_loop w ps acc = Inr R"
  by (induction ps arbitrary: acc) (auto split: sum.splits)

lemma standardize_loop_ok_only:
  "standardize_loop w ps acc = Inr R \<Longrightarrow>
   \<forall>p\<in>set ps. \<forall>e. path_resolve w p = Inl e \<longrightarrow> e = FileNotFoundError"
  by (induction ps arbitrary: acc) (auto split: sum.splits if_splits)

text \<open>
  C8. The claim: normalization never raises, and an entry that cannot be resolved is
  dropped silently. \<open>standardize_paths\<close> drops an entry that does not exist, since
  FileNotFoundError is caught, but an entry below a regular file, such as
  \<open>/etc/passwd/include\<close>, makes \<open>resolve\<close> raise NotADirectoryError, which leaves
  the function, also when the other entries resolve.
\<close>

theorem standardize_paths_raises:
  "standardize_paths passwd_host [''/nonexistent''] = Inr [] \<and>
   standardize_paths passwd_host [''/etc/passwd/include''] = Inl NotADirectoryError \<and>
   standardize_paths passwd_host [''/home/user'', ''/etc/passwd/include'']
     = Inl NotADirectoryError \<and>
   standardize_paths passwd_host [''/home/user'', ''/nonexistent''] = Inr [''/home/user'']"
  by code_simp

subsection \<open>Empty segments of a path list\<close>

lemma set_get_from_env:
  "set (get_from_env w name paths) =
   set paths \<union> (case environ w name of
                   None \<Rightarrow> {}
                 | Some v \<Rightarrow> if v \<noteq> [] then set (split_paths v) else {})"
  by (auto simp: get_from_env_def split: option.splits)

lemma empty_segment_in_split:
  assumes "a = [] \<or> b = [] \<or> last a = CHR '':''"
  shows "[] \<in> set (split_paths (a @ '':'' @ b))"
proof -
  have s: "split_paths (a @ '':'' @ b) = split_str '':'' a @ split_str '':'' b"
    using split_str_char_append [of "CHR '':''" a b] by (simp add: split_paths_def)
  show ?thesis
  proof (cases "a = [] \<or> b = []")
    case True
    then show ?thesis using s by auto
  next
    case False
    then have "a \<noteq> []" and "last a = CHR '':''" using assms by auto
    then have "a = butlast a @ CHR '':'' # []"
      by (metis append_butlast_last_id)
    then have "split_str '':'' a = split_str '':'' (butlast a) @ split_str '':'' []"
      using split_str_char_append [of "CHR '':''" "butlast a" "[]"] by simp
    then show ?thesis using s by simp
  qed
qed

lemma standardize_paths_cwd:
  assumes "standardize_paths w ps = Inr R" and "[] \<in> set ps" and "cwd w = Inr d"
  shows "d \<in> set R"
proof -
  have "set R = {q. \<exists>p\<in>set ps. path_resolve w p = Inr q}"
    using assms(1) standardize_loop_Inr [of w ps "[]" R] by (simp add: standardize_paths_def)
  moreover have "path_resolve w [] = Inr d"
    using assms(3) by (simp add: path_resolve_def)
  ultimately show ?thesis using assms(2) by blast
qed

text \<open>
  C9, as amended. Let one of the path-list variables hold a value with an empty segment:
  a colon with nothing before it, nothing after it, or another colon before it; and let
  the working directory exist, so that \<open>os.getcwd()\<close> returns \<open>d\<close>. Then the empty
  string is among the paths read from the environment, normalization resolves it to
  \<open>d\<close> instead of dropping it, and \<open>d\<close> is among the merged, normalized include
  paths (for the three include variables) or library paths (for the two library
  variables).
\<close>

theorem empty_segment_adds_cwd:
  assumes "environ w name = Some (a @ '':'' @ b)"
    and "a = [] \<or> b = [] \<or> last a = CHR '':''"
    and "cwd w = Inr d"
  shows "(name \<in> {''YOGRT_INCLUDE_PATH'', ''CPATH'', ''C_INCLUDE_PATH''} \<longrightarrow>
            [] \<in> set (get_env_include_paths w) \<and>
            (\<forall>ps. include_search_paths w = Inr ps \<longrightarrow> d \<in> set ps)) \<and>
         (name \<in> {''YOGRT_LIBRARY_PATH'', ''LIBRARY_PATH''} \<longrightarrow>
            [] \<in> set (get_env_library_paths w) \<and>
            (\<forall>ps. library_search_paths w = Inr ps \<longrightarrow> d \<in> set ps)) \<and>
         path_resolve w [] = Inr d"
proof (intro conjI impI allI)
  have seg: "[] \<in> set (split_paths (a @ '':'' @ b))"
    using assms(2) by (rule empty_segment_in_split)
  have env: "[] \<in> set (get_from_env w name paths)" for paths
    using seg assms(1) by (simp add: set_get_from_env)
  have keep: "[] \<in> set paths \<Longrightarrow> [] \<in> set (get_from_env w n paths)" for n paths
    by (simp add: set_get_from_env)
  show "path_resolve w [] = Inr d"
    using assms(3) by (simp add: path_resolve_def)
  {
    assume n: "name \<in> {''YOGRT_INCLUDE_PATH'', ''CPATH'', ''C_INCLUDE_PATH''}"
    show i: "[] \<in> set (get_env_include_paths w)"
      unfolding get_env_include_paths_def using n env keep by blast
    fix ps assume "include_search_paths w = Inr ps"
    then obtain cps where
      "standardize_paths w
         (List.insert ''/usr/local/include''
           (List.insert ''/usr/include''
             (List.union (get_env_include_paths w) cps))) = Inr ps"
      by (auto simp: include_search_paths_def split: sum.splits)
    moreover have "[] \<in> set (List.insert ''/usr/local/include''
           (List.insert ''/usr/include''
             (List.union (get_env_include_paths w) cps)))"
      using i by simp
    ultimately show "d \<in> set ps"
      using assms(3) by (rule standardize_paths_cwd)
  }
  {
    assume n: "name \<in> {''YOGRT_LIBRARY_PATH'', ''LIBRARY_PATH''}"
    show l: "[] \<in> set (get_env_library_paths w)"
      unfolding get_env_library_paths_def using n env keep by blast
    fix ps assume "library_search_paths w = Inr ps"
    then obtain cps lps where
      "standardize_paths w (merge_library_paths w cps lps) = Inr ps"
      by (auto simp: library_search_paths_def split: sum.splits)
    moreover have "[] \<in> set (merge_library_paths w cps lps)"
      using l by (simp add: merge_library_paths_def)
    ultimately show "d \<in> set ps"
      using assms(3) by (rule standardize_paths_cwd)
  }
qed

theorem empty_segment_adds_cwd_witness:
  "[] \<in> set (get_env_include_paths (bare_host\<lparr>environ := [''CPATH'' \<mapsto> ''/a:'']\<rparr>)) \<and>
   (\<exists>ps. include_search_paths (bare_host\<lparr>environ := [''CPATH'' \<mapsto> ''/a:'']\<rparr>) = Inr ps \<and>
         ''/home/user'' \<in> set ps) \<and>
   (\<exists>ps. library_search_paths (cache_host\<lparr>environ := [''LIBRARY_PATH'' \<mapsto> ''/a::/b'']\<rparr>)
           = Inr ps \<and>
         ''/home/user'' \<in> set ps)"
proof -
  define w where "w = bare_host\<lparr>environ := [''CPATH'' \<mapsto> ''/a:'']\<rparr>"
  define v where "v = cache_host\<lparr>environ := [''LIBRARY_PATH'' \<mapsto> ''/a::/b'']\<rparr>"
  define home where "home = ''/home/user''"
  define ps where "ps = [''/home/user'']"
  define qs where "qs = [''/opt/lib/libyogrt.so'', ''/home/user'', ''/usr/lib'']"
  have w1: "environ w ''CPATH'' = Some (''/a'' @ '':'' @ [])"
    unfolding w_def by simp
  have w2: "''/a'' = [] \<or> ([]::string) = [] \<or> last ''/a'' = CHR '':''"
    by simp
  have w3: "''CPATH'' \<in> {''YOGRT_INCLUDE_PATH'', ''CPATH'', ''C_INCLUDE_PATH''}"
    by simp
  have ci: "cwd w = Inr home" and cl: "cwd v = Inr home"
    unfolding w_def v_def home_def by (simp_all add: bare_host_def cache_host_def)
  have i: "[] \<in> set (get_env_include_paths w) \<and>
            (\<forall>ps. include_search_paths w = Inr ps \<longrightarrow> home \<in> set ps)"
    using empty_segment_adds_cwd [OF w1 w2 ci, THEN conjunct1] w3 by (rule mp)
  have v1: "environ v ''LIBRARY_PATH'' = Some (''/a:'' @ '':'' @ ''/b'')"
    unfolding v_def by simp
  have v2: "''/a:'' = [] \<or> ''/b'' = [] \<or> last ''/a:'' = CHR '':''"
    by simp
  have v3: "''LIBRARY_PATH'' \<in> {''YOGRT_LIBRARY_PATH'', ''LIBRARY_PATH''}"
    by simp
  have l: "[] \<in> set (get_env_library_paths v) \<and>
            (\<forall>ps. library_search_paths v = Inr ps \<longrightarrow> home \<in> set ps)"
    using empty_segment_adds_cwd [OF v1 v2 cl, THEN conjunct2, THEN conjunct1] v3 by (rule mp)
  have ei: "include_search_paths w = Inr ps"
    unfolding w_def ps_def by code_simp
  have el: "library_search_paths v = Inr qs"
    unfolding v_def qs_def by code_simp
  from i ei have a: "\<exists>ps. include_search_paths w = Inr ps \<and> home \<in> set ps"
    by blast
  from l el have b: "\<exists>ps. library_search_paths v = Inr ps \<and> home \<in> set ps"
    by blast
  from i a b show ?thesis unfolding w_def v_def home_def by blast
qed

text \<open>
  C9 as stated fails when the working directory has been removed: the empty string is
  read from \<open>CPATH\<close>, but resolving it raises FileNotFoundError, so normalization
  drops it and no directory joins the include paths.
\<close>

theorem empty_segment_dropped:
  "environ gone_host ''CPATH'' = Some ''/a:'' \<and>
   [] \<in> set (get_env_include_paths gone_host) \<and>
   path_resolve gone_host [] = Inl FileNotFoundError \<and>
   standardize_paths gone_host (get_env_include_paths gone_host) = Inr [] \<and>
   include_search_paths gone_host = Inr []"
  by code_simp

subsection \<open>What the linker cache contributes to library lookup\<close>

lemma set_merge_library_paths:
  "set (merge_library_paths w cps lps) = set (merge_library_paths w cps []) \<union> set lps"
  by (auto simp: merge_library_paths_def)

text \<open>
  C10. Let \<open>ldconfig -p\<close> print a listing whose lines for \<open>libyogrt.so\<close> are entries
  \<open>name => path\<close>. The linker cache then contributes exactly the paths of these
  entries, the library files themselves and not their directories. A directory that
  library lookup returns is the resolution of a path from another source, unless it is
  the resolution of such a library path below which \<open>libyogrt.so\<close> exists. When the
  entries resolve to regular files, below which nothing exists, every directory returned
  comes from another source and lookup without the cache returns the same set: a library
  that only the cache knows is never returned.
\<close>

theorem ldconfig_entries_never_returned:
  assumes ran: "run w [''ldconfig'', ''-p''] False = Exited 0 listing"
    and wf: "\<forall>l\<in>set (split_str [CHR 0x0A] listing).
               startswith (strip l) ''libyogrt.so '' \<longrightarrow> (\<exists>n p. cache_line l n p)"
    and c: "get_compiler_library_paths w = Inr cps"
  shows "(\<exists>lps. get_ldconfig_library_paths w = Inr lps \<and>
            set lps = {p. \<exists>l\<in>set (split_str [CHR 0x0A] listing). \<exists>n. cache_line l n p}) \<and>
         (\<forall>R. find_yogrt_lib w = Inr R \<longrightarrow>
            (\<forall>d\<in>set R.
               (\<exists>p\<in>set (merge_library_paths w cps []). path_resolve w p = Inr d) \<or>
               (\<exists>l\<in>set (split_str [CHR 0x0A] listing). \<exists>n p.
                  cache_line l n p \<and> path_resolve w p = Inr d \<and>
                  path_exists w (os_path_join d ''libyogrt.so'')))) \<and>
         ((\<forall>l\<in>set (split_str [CHR 0x0A] listing). \<forall>n p f.
              cache_line l n p \<and> path_resolve w p = Inr f \<longrightarrow> is_file w f) \<and>
          (\<forall>f. is_file w f \<longrightarrow> \<not> path_exists w (os_path_join f ''libyogrt.so'')) \<longrightarrow>
            (\<forall>R. find_yogrt_lib w = Inr R \<longrightarrow>
               (\<forall>d\<in>set R. \<exists>p\<in>set (merge_library_paths w cps []). path_resolve w p = Inr d) \<and>
               (\<exists>ps' R'. standardize_paths w (merge_library_paths w cps []) = Inr ps' \<and>
                          find_lib_in w ps' = Inr R' \<and> set R' = set R)))"
proof -
  let ?lines = "split_str [CHR 0x0A] listing"
  let ?listed = "{p. \<exists>l\<in>set ?lines. \<exists>n. cache_line l n p}"
  let ?own = "merge_library_paths w cps []"
  let ?has = "\<lambda>d. path_exists w (os_path_join d ''libyogrt.so'')"
  have g: "get_ldconfig_library_paths w = ldconfig_lines ?lines []"
    using ran by (simp add: get_ldconfig_library_paths_def check_output_def)
  obtain lps where l0: "ldconfig_lines ?lines [] = Inr lps"
    and sl0: "set lps = set [] \<union> ?listed"
    using ldconfig_lines_result [OF wf, of "[]"] by blast
  have l: "get_ldconfig_library_paths w = Inr lps"
    using g l0 by (rule trans)
  have sl: "set lps = ?listed"
    using sl0 by simp
  let ?all = "merge_library_paths w cps lps"
  have sm: "set ?all = set ?own \<union> ?listed"
    using set_merge_library_paths [of w cps lps] sl by simp
  have facts: "set R = {d \<in> set ps. ?has d} \<and> R \<noteq> [] \<and>
               set ps = {q. \<exists>p\<in>set ?all. path_resolve w p = Inr q} \<and>
               (\<forall>p\<in>set ?all. \<forall>e. path_resolve w p = Inl e \<longrightarrow> e = FileNotFoundError) \<and>
               standardize_paths w ?all = Inr ps"
    if r: "find_yogrt_lib w = Inr R" and ps: "library_search_paths w = Inr ps" for R ps
  proof -
    have st: "standardize_paths w ?all = Inr ps"
      using ps c l by (simp add: library_search_paths_def)
    have f: "find_lib_in w ps = Inr R"
      using r ps by (simp add: find_yogrt_lib_def)
    have "set R = {d \<in> set ps. ?has d}" and "R \<noteq> []"
      using f by (auto simp: find_lib_in_def Let_def set_libyogrt_loop split: if_splits)
    moreover have "set ps = {q. \<exists>p\<in>set ?all. path_resolve w p = Inr q}"
      using st standardize_loop_Inr [of w ?all "[]" ps] by (simp add: standardize_paths_def)
    moreover have "\<forall>p\<in>set ?all. \<forall>e. path_resolve w p = Inl e \<longrightarrow> e = FileNotFoundError"
      using st standardize_loop_ok_only [of w ?all "[]" ps] by (simp add: standardize_paths_def)
    ultimately show ?thesis using st by blast
  qed
  have searched: "\<exists>ps. library_search_paths w = Inr ps" if "find_yogrt_lib w = Inr R" for R
    using that by (cases "library_search_paths w") (simp_all add: find_yogrt_lib_def)
  have one: "\<exists>lps. get_ldconfig_library_paths w = Inr lps \<and> set lps = ?listed"
    using l sl by blast
  have two: "\<forall>R. find_yogrt_lib w = Inr R \<longrightarrow>
            (\<forall>d\<in>set R.
               (\<exists>p\<in>set ?own. path_resolve w p = Inr d) \<or>
               (\<exists>l\<in>set ?lines. \<exists>n p.
                  cache_line l n p \<and> path_resolve w p = Inr d \<and> ?has d))"
  proof (intro allI impI ballI)
    fix R d assume r: "find_yogrt_lib w = Inr R" and d: "d \<in> set R"
    from searched [OF r] obtain ps where ps: "library_search_paths w = Inr ps" ..
    from facts [OF r ps] d have "d \<in> set ps" and h: "?has d"
      and "set ps = {q. \<exists>p\<in>set ?all. path_resolve w p = Inr q}"
      by blast+
    then obtain p where "p \<in> set ?all" and pr: "path_resolve w p = Inr d"
      by blast
    then have "p \<in> set ?own \<or> p \<in> ?listed"
      using sm by blast
    then show "(\<exists>p\<in>set ?own. path_resolve w p = Inr d) \<or>
               (\<exists>l\<in>set ?lines. \<exists>n p.
                  cache_line l n p \<and> path_resolve w p = Inr d \<and> ?has d)"
      using pr h by blast
  qed
  have three: "\<forall>R. find_yogrt_lib w = Inr R \<longrightarrow>
               (\<forall>d\<in>set R. \<exists>p\<in>set ?own. path_resolve w p = Inr d) \<and>
               (\<exists>ps' R'. standardize_paths w ?own = Inr ps' \<and>
                          find_lib_in w ps' = Inr R' \<and> set R' = set R)"
    if files: "\<forall>l\<in>set ?lines. \<forall>n p f.
              cache_line l n p \<and> path_resolve w p = Inr f \<longrightarrow> is_file w f"
      and posix: "\<forall>f. is_file w f \<longrightarrow> \<not> ?has f"
  proof (intro allI impI)
    fix R assume r: "find_yogrt_lib w = Inr R"
    from searched [OF r] obtain ps where ps: "library_search_paths w = Inr ps" ..
    note f = facts [OF r ps]
    have nolisted: "\<not> ?has f" if "p \<in> ?listed" and "path_resolve w p = Inr f" for p f
      using that files posix by blast
    have a: "\<forall>d\<in>set R. \<exists>p\<in>set ?own. path_resolve w p = Inr d"
    proof
      fix d assume "d \<in> set R"
      with two r have "(\<exists>p\<in>set ?own. path_resolve w p = Inr d) \<or>
               (\<exists>l\<in>set ?lines. \<exists>n p.
                  cache_line l n p \<and> path_resolve w p = Inr d \<and> ?has d)"
        by blast
      then show "\<exists>p\<in>set ?own. path_resolve w p = Inr d"
        using nolisted by blast
    qed
    have "\<forall>p\<in>set ?own. \<forall>e. path_resolve w p = Inl e \<longrightarrow> e = FileNotFoundError"
      using f sm by blast
    then obtain ps' where ps': "standardize_paths w ?own = Inr ps'"
      using standardize_loop_total [of ?own w "[]"] by (auto simp: standardize_paths_def)
    have sps': "set ps' = {q. \<exists>p\<in>set ?own. path_resolve w p = Inr q}"
      using ps' standardize_loop_Inr [of w ?own "[]" ps'] by (simp add: standardize_paths_def)
    have sR: "set R = {d \<in> set ps. ?has d}" and ne: "R \<noteq> []"
      and sps: "set ps = {q. \<exists>p\<in>set ?all. path_resolve w p = Inr q}"
      using f by blast+
    have eq: "{d \<in> set ps'. ?has d} = set R"
    proof (intro set_eqI iffI)
      fix d assume "d \<in> {d \<in> set ps'. ?has d}"
      then show "d \<in> set R" using sR sps sps' sm by blast
    next
      fix d assume "d \<in> set R"
      then show "d \<in> {d \<in> set ps'. ?has d}" using a sR sps' by blast
    qed
    have "libyogrt_loop w ps' [] \<noteq> []"
    proof
      assume "libyogrt_loop w ps' [] = []"
      then have "set (libyogrt_loop w ps' []) = {}" by simp
      then have "{d \<in> set ps'. ?has d} = {}" by (simp add: set_libyogrt_loop)
      then have "set R = {}" using eq by simp
      then show False using ne by simp
    qed
    then have f': "find_lib_in w ps' = Inr (libyogrt_loop w ps' [])"
      by (simp add: find_lib_in_def Let_def)
    have "set (libyogrt_loop w ps' []) = set R"
      using eq by (simp add: set_libyogrt_loop)
    then have b: "\<exists>ps' R'. standardize_paths w ?own = Inr ps' \<and>
                     find_lib_in w ps' = Inr R' \<and> set R' = set R"
      using ps' f' by blast
    from a b show "(\<forall>d\<in>set R. \<exists>p\<in>set ?own. path_resolve w p = Inr d) \<and>
        (\<exists>ps' R'. standardize_paths w ?own = Inr ps' \<and>
                     find_lib_in w ps' = Inr R' \<and> set R' = set R)"
      by (rule conjI)
  qed
  from one two three show ?thesis by blast
qed

theorem ldconfig_entries_never_returned_witness:
  "get_ldconfig_library_paths cache_host = Inr [''/opt/lib/libyogrt.so''] \<and>
   path_exists cache_host ''/opt/lib/libyogrt.so'' \<and>
   (\<forall>R. find_yogrt_lib cache_host \<noteq> Inr R)"
proof -
  define l1 where "l1 = ''2 libs found in cache''"
  define l2 where "l2 = [CHR 0x09] @ ''libyogrt.so.1 (libc6) => /opt/lib/libyogrt.so.1''"
  define l3 where "l3 = [CHR 0x09] @ ''libyogrt.so (libc6) => /opt/lib/libyogrt.so''"
  define l4 where "l4 = ([] :: string)"
  define name where "name = ''libyogrt.so (libc6)''"
  define path where "path = ''/opt/lib/libyogrt.so''"
  define own where "own = [''/usr/lib'']"
  let ?lines = "split_str [CHR 0x0A] ldconfig_listing"
  have L: "?lines = [l1, l2, l3, l4]"
    unfolding l1_def l2_def l3_def l4_def by code_simp
  have n: "\<not> startswith (strip l1) ''libyogrt.so ''" "\<not> startswith (strip l2) ''libyogrt.so ''"
    "\<not> startswith (strip l4) ''libyogrt.so ''"
    unfolding l1_def l2_def l4_def by code_simp+
  have c3: "cache_line l3 name path"
    unfolding l3_def name_def path_def by code_simp
  have cases: "l = l1 \<or> l = l2 \<or> l = l3 \<or> l = l4" if "l \<in> set ?lines" for l
    using that unfolding L by (simp only: list.set insert_iff empty_iff) blast
  have only: "p = path" if "l \<in> set ?lines" and "cache_line l n' p" for l n' p
  proof -
    from that(2) have "startswith (strip l) ''libyogrt.so ''"
      unfolding cache_line_def by (rule conjunct1)
    with cases [OF that(1)] n have "l = l3" by blast
    with that(2) have "cache_line l3 n' p" by (simp only:)
    with c3 show ?thesis by (rule cache_line_unique)
  qed
  have ran: "run cache_host [''ldconfig'', ''-p''] False = Exited 0 ldconfig_listing"
    by (simp add: cache_host_def)
  have wf: "\<forall>l\<in>set ?lines. startswith (strip l) ''libyogrt.so '' \<longrightarrow> (\<exists>n p. cache_line l n p)"
  proof (intro ballI impI)
    fix l assume "l \<in> set ?lines" and "startswith (strip l) ''libyogrt.so ''"
    with cases n have "l = l3" by blast
    with c3 show "\<exists>n p. cache_line l n p" by blast
  qed
  have c: "get_compiler_library_paths cache_host = Inr []"
    by code_simp
  have rp: "path_resolve cache_host path = Inr path" and fp: "is_file cache_host path"
    and np: "\<not> path_exists cache_host (os_path_join path ''libyogrt.so'')"
    unfolding path_def by code_simp+
  have files: "\<forall>l\<in>set ?lines. \<forall>n p f.
      cache_line l n p \<and> path_resolve cache_host p = Inr f \<longrightarrow> is_file cache_host f"
  proof (intro ballI allI impI)
    fix l n' p f
    assume l: "l \<in> set ?lines" and a: "cache_line l n' p \<and> path_resolve cache_host p = Inr f"
    then have "p = path" using only by blast
    with a rp have "f = path" by simp
    with fp show "is_file cache_host f" by (simp only:)
  qed
  have "f = path" if "is_file cache_host f" for f
    using that unfolding path_def by (simp add: cache_host_def)
  with np have posix: "\<forall>f. is_file cache_host f \<longrightarrow>
      \<not> path_exists cache_host (os_path_join f ''libyogrt.so'')"
    by blast
  note t = ldconfig_entries_never_returned [OF ran wf c]
  have s: "standardize_paths cache_host (merge_library_paths cache_host [] []) = Inr own"
    unfolding own_def by code_simp
  have e: "find_lib_in cache_host own = Inl (RuntimeError ''Could not find libyogrt.so'')"
    unfolding own_def by code_simp
  have never: "find_yogrt_lib cache_host \<noteq> Inr R" for R
  proof
    assume "find_yogrt_lib cache_host = Inr R"
    with t files posix obtain ps' R' where
      "standardize_paths cache_host (merge_library_paths cache_host [] []) = Inr ps'"
      and "find_lib_in cache_host ps' = Inr R'"
      by blast
    with s e show False by simp
  qed
  have g: "get_ldconfig_library_paths cache_host = Inr [path]"
    unfolding path_def by code_simp
  have x: "path_exists cache_host path"
    unfolding path_def by code_simp
  from g x never show ?thesis unfolding path_def by blast
qed

subsection \<open>Probes that raise\<close>

text \<open>
  C1. The claim: the derivation of the preprocessor, the parsing of its verbose output
  and the parsing of the linker cache never raise, whatever the child process does. The
  functions catch CalledProcessError only. On a host where the program to run is missing
  (\<open>CC=gcc\<close> without a gcc, no \<open>ldconfig\<close>), starting it raises
  FileNotFoundError, which leaves all three functions; and a line of the cache listing
  that begins with \<open>libyogrt.so\<close> and a space but holds no \<open> => \<close> raises
  IndexError. Only a return code other than 0, and a compiler that \<open>shutil.which\<close>
  does not find, end in \<open>None\<close> or the empty set (the last four equations).
\<close>

theorem soft_probes_raise:
  "determine_preprocessor bare_host ''gcc'' = Inl FileNotFoundError \<and>
   get_compiler_include_paths (bare_host\<lparr>environ := [''CC'' \<mapsto> ''gcc'']\<rparr>)
     = Inl FileNotFoundError \<and>
   get_ldconfig_library_paths bare_host = Inl FileNotFoundError \<and>
   get_ldconfig_library_paths
     (bare_host\<lparr>run := (\<lambda>args merged. Exited 0 ''libyogrt.so (libc6)'')\<rparr>)
     = Inl IndexError \<and>
   determine_preprocessor (bare_host\<lparr>run := (\<lambda>args merged. Exited 1 [])\<rparr>) ''gcc''
     = Inr None \<and>
   get_compiler_include_paths
     (bare_host\<lparr>environ := [''CC'' \<mapsto> ''gcc''], run := (\<lambda>args merged. Exited 1 [])\<rparr>)
     = Inr [] \<and>
   get_ldconfig_library_paths (bare_host\<lparr>run := (\<lambda>args merged. Exited 1 [])\<rparr>) = Inr [] \<and>
   get_compiler_include_paths bare_host = Inr []"
  by code_simp

end
